theory Spec2Isabelle
  imports Main "HOL-Library.Sublist" "HOL-Library.Char_ord" "HOL-Library.List_Lexorder"
begin

section \<open>The cleanup tool of CReSO (scripts/cleanup.py)\<close>

text \<open>
  The class \<open>CReSOCleaner\<close> of \<open>scripts/cleanup.py\<close> is embedded function by function.
  The program works on \<open>pathlib\<close> paths and on the file system; both are made explicit:
  \<^item> a path is the list of its components below the file-system root (POSIX flavour);
  \<^item> the file system is a record \<open>fsys\<close>, passed in and returned by everything that
    touches the disk;
  \<^item> every exception the program can meet is a value of \<open>error\<close>, and a function that
    may raise returns \<open>error + 'a\<close> (\<open>Inl\<close> the exception).
  The library functions the program calls (\<open>PurePath.match\<close>, \<open>Path.rglob\<close>,
  \<open>fnmatch.fnmatchcase\<close>, \<open>relative_to\<close>, \<open>shutil\<close>) are modelled after CPython 3.11.
\<close>

subsection \<open>Errors and results\<close>

datatype error = OSError | ValueError | NotImplementedError | EOFError | SystemExit

type_synonym 'a res = "error + 'a"

subsection \<open>fnmatch.fnmatchcase\<close>

text \<open>
  \<open>fnmatch.translate\<close> turns a shell pattern into a regular expression, which is then
  matched against the whole name. The regular expression is a sequence of items, each
  of which is \<open>*\<close>, or matches exactly one character: \<open>?\<close>, a literal character, or a
  bracket expression \<open>[...]\<close>. Names and patterns are strings of 8-bit characters.
\<close>

datatype tok =
    Star
  | AnyChar
  | Lit char
  | CharSet bool "char list" "(char \<times> char) list"
    \<comment> \<open>negated?, the single characters, the ranges\<close>

fun find_char :: "char \<Rightarrow> string \<Rightarrow> nat option" where
  "find_char c [] = None"
| "find_char c (x # xs) = (if x = c then Some 0 else map_option Suc (find_char c xs))"

text \<open>
  The closing bracket of \<open>[...]\<close>: \<open>rest\<close> is the pattern after the opening bracket; an
  optional \<open>!\<close> and then an optional \<open>]\<close> are skipped before the search for \<open>]\<close>. The
  result is the index of the closing bracket in \<open>rest\<close>, or \<open>None\<close> when there is none
  (the opening bracket is then a literal character).
\<close>

definition bracket_end :: "string \<Rightarrow> nat option" where
  "bracket_end rest =
     (let j0 = (if take 1 rest = ''!'' then 1 else 0);
          j1 = (if take 1 (drop j0 rest) = '']'' then j0 + 1 else j0)
      in map_option (\<lambda>d. j1 + d) (find_char (CHR '']'') (drop j1 rest)))"

text \<open>
  The text between the brackets is cut into chunks at the hyphens that stand for a
  range; a hyphen among the first \<open>k\<close> characters of a chunk is an ordinary character
  (\<open>k\<close> is 1 at the start, 2 after \<open>!\<close> and after a range hyphen).
\<close>

fun chunks_from :: "nat \<Rightarrow> string \<Rightarrow> string \<Rightarrow> string list" where
  "chunks_from k acc [] = [rev acc]"
| "chunks_from k acc (c # cs) =
     (if k = 0 \<and> c = CHR ''-'' then rev acc # chunks_from 2 [] cs
      else chunks_from (k - 1) (c # acc) cs)"

text \<open>An empty last chunk means a trailing hyphen, which is an ordinary character.\<close>

definition fix_last :: "string list \<Rightarrow> string list" where
  "fix_last cs =
     (if 2 \<le> length cs \<and> last cs = []
      then butlast (butlast cs) @ [last (butlast cs) @ ''-'']
      else cs)"

text \<open>
  Ranges whose lower end is above the upper end are removed, from the right: both ends
  go and the two chunks are joined.
\<close>

fun drop_empty_ranges :: "string list \<Rightarrow> string list" where
  "drop_empty_ranges [] = []"
| "drop_empty_ranges [c] = [c]"
| "drop_empty_ranges (c # d # ds) =
     (case drop_empty_ranges (d # ds) of
        [] \<Rightarrow> [c]
      | d' # ds' \<Rightarrow>
          if c \<noteq> [] \<and> d' \<noteq> [] \<and> hd d' < last c
          then (butlast c @ tl d') # ds'
          else c # d' # ds')"

text \<open>
  The chunks are joined again with range hyphens (\<open>Hy\<close>); every other character, a
  hyphen inside a chunk too, is escaped and stands for itself (\<open>Chr\<close>). The regular
  expression parser reads a character class from the left: an item followed by a range
  hyphen and one more item is a range, a range hyphen in any other place is the
  character \<open>-\<close>.
\<close>

datatype citem = Chr char | Hy

fun class_items :: "string list \<Rightarrow> citem list" where
  "class_items [] = []"
| "class_items [c] = map Chr c"
| "class_items (c # d # ds) = map Chr c @ Hy # class_items (d # ds)"

fun item_char :: "citem \<Rightarrow> char" where
  "item_char (Chr c) = c"
| "item_char Hy = CHR ''-''"

fun class_parse :: "citem list \<Rightarrow> char list \<times> (char \<times> char) list" where
  "class_parse [] = ([], [])"
| "class_parse [x] = ([item_char x], [])"
| "class_parse [x, Hy] = ([item_char x, CHR ''-''], [])"
| "class_parse (x # Hy # y # rest) =
     (case class_parse rest of (ms, rs) \<Rightarrow> (ms, (item_char x, item_char y) # rs))"
| "class_parse (x # Chr c # rest) =
     (case class_parse (Chr c # rest) of (ms, rs) \<Rightarrow> (item_char x # ms, rs))"

definition charset :: "string \<Rightarrow> tok" where
  "charset stuff =
     (let k = (if take 1 stuff = ''!'' then 2 else 1);
          items = class_items (drop_empty_ranges (fix_last (chunks_from k [] stuff)))
      in case items of
           Chr c # rest \<Rightarrow>
             if c = CHR ''!'' then (case class_parse rest of (ms, rs) \<Rightarrow> CharSet True ms rs)
             else (case class_parse items of (ms, rs) \<Rightarrow> CharSet False ms rs)
         | _ \<Rightarrow> (case class_parse items of (ms, rs) \<Rightarrow> CharSet False ms rs))"

fun translate :: "string \<Rightarrow> tok list" where
  "translate [] = []"
| "translate (c # rest) =
     (if c = CHR ''*'' then Star # translate rest
      else if c = CHR ''?'' then AnyChar # translate rest
      else if c = CHR ''[''
      then (case bracket_end rest of
              None \<Rightarrow> Lit CHR ''['' # translate rest
            | Some j \<Rightarrow> charset (take j rest) # translate (drop (Suc j) rest))
      else Lit c # translate rest)"

fun tok_ok :: "tok \<Rightarrow> char \<Rightarrow> bool" where
  "tok_ok Star c = True"
| "tok_ok AnyChar c = True"
| "tok_ok (Lit a) c = (c = a)"
| "tok_ok (CharSet neg ms rs) c =
     (neg \<noteq> (c \<in> set ms \<or> list_ex (\<lambda>(lo, hi). lo \<le> c \<and> c \<le> hi) rs))"

fun tok_match :: "tok list \<Rightarrow> string \<Rightarrow> bool" where
  "tok_match [] s = (s = [])"
| "tok_match (Star # ts) s =
     (tok_match ts s \<or> (case s of [] \<Rightarrow> False | _ # s' \<Rightarrow> tok_match (Star # ts) s'))"
| "tok_match (t # ts) s = (case s of [] \<Rightarrow> False | c # s' \<Rightarrow> tok_ok t c \<and> tok_match ts s')"

definition fnmatchcase :: "string \<Rightarrow> string \<Rightarrow> bool" where
  "fnmatchcase name pat = tok_match (translate pat) name"

subsection \<open>Paths\<close>

text \<open>
  A path is the list of its components below the file-system root: \<open>/home/u/creso\<close> is
  \<open>[''home'', ''u'', ''creso'']\<close>. \<open>pattern_parts\<close> is what \<open>parse_parts\<close> keeps of a
  string: the components between the separators, without the empty ones and without
  \<open>.\<close>; a string that starts with the separator is anchored at the root.
\<close>

type_synonym path = "string list"

fun split_sep :: "string \<Rightarrow> string list" where
  "split_sep [] = [[]]"
| "split_sep (c # cs) =
     (if c = CHR ''/'' then [] # split_sep cs
      else (case split_sep cs of [] \<Rightarrow> [[c]] | x # xs \<Rightarrow> (c # x) # xs))"

definition pattern_parts :: "string \<Rightarrow> string list" where
  "pattern_parts s = filter (\<lambda>x. x \<noteq> [] \<and> x \<noteq> ''.'') (split_sep s)"

definition is_anchored :: "string \<Rightarrow> bool" where
  "is_anchored s = (take 1 s = ''/'')"

text \<open>\<open>self / s\<close>: an anchored right operand replaces the left one.\<close>

definition path_join :: "path \<Rightarrow> string \<Rightarrow> path" where
  "path_join p s = (if is_anchored s then pattern_parts s else p @ pattern_parts s)"

text \<open>\<open>path.relative_to(other)\<close> raises \<open>ValueError\<close> unless \<open>other\<close> is a prefix.\<close>

definition relative_to :: "path \<Rightarrow> path \<Rightarrow> path res" where
  "relative_to p other =
     (if take (length other) p = other then Inr (drop (length other) p) else Inl ValueError)"

text \<open>
  \<open>PurePath.match\<close> on a relative path (its components are \<open>parts\<close>): an empty pattern
  raises; an anchored pattern never matches a relative path; otherwise the pattern's
  components are compared with the last components of the path, from the right.
\<close>

definition path_match :: "path \<Rightarrow> string \<Rightarrow> bool res" where
  "path_match parts path_pattern =
     (let pat_parts = pattern_parts path_pattern in
      if is_anchored path_pattern then Inr False
      else if pat_parts = [] then Inl ValueError
      else if length parts < length pat_parts then Inr False
      else Inr (list_all (\<lambda>(part, pat). fnmatchcase part pat) (zip (rev parts) (rev pat_parts))))"

subsection \<open>The file system\<close>

text \<open>
  The file system is the list of the existing paths, each with its kind (and its byte
  length for a file), in the order in which a directory walk lists them. \<open>noaccess\<close>
  holds the paths on which \<open>stat\<close> fails with \<open>PermissionError\<close> (an entry of a directory
  that may be listed but not searched), \<open>locked\<close> the paths whose removal fails with
  \<open>PermissionError\<close>. There are no symbolic links. A directory listing (\<open>scandir\<close>) gives
  the kind of an entry without \<open>stat\<close>.
\<close>

datatype node = File nat | Dir

record fsys =
  entries :: "(path \<times> node) list"
  noaccess :: "path list"
  locked :: "path list"

definition lookup :: "fsys \<Rightarrow> path \<Rightarrow> node option" where
  "lookup fs p = map_of (entries fs) p"

definition kind_dir :: "fsys \<Rightarrow> path \<Rightarrow> bool" where
  "kind_dir fs p = (lookup fs p = Some Dir)"

text \<open>
  \<open>Path.is_file\<close>, \<open>Path.is_dir\<close> and \<open>Path.exists\<close> call \<open>stat\<close>: a missing path gives
  \<open>False\<close>, a \<open>PermissionError\<close> is raised again.
\<close>

definition is_file :: "fsys \<Rightarrow> path \<Rightarrow> bool res" where
  "is_file fs p =
     (if p \<in> set (noaccess fs) then Inl OSError
      else Inr (case lookup fs p of Some (File n) \<Rightarrow> True | _ \<Rightarrow> False))"

definition is_dir :: "fsys \<Rightarrow> path \<Rightarrow> bool res" where
  "is_dir fs p =
     (if p \<in> set (noaccess fs) then Inl OSError else Inr (lookup fs p = Some Dir))"

definition exists :: "fsys \<Rightarrow> path \<Rightarrow> bool res" where
  "exists fs p =
     (if p \<in> set (noaccess fs) then Inl OSError else Inr (lookup fs p \<noteq> None))"

text \<open>\<open>path.stat().st_size\<close>; the program reads it for regular files only.\<close>

definition st_size :: "fsys \<Rightarrow> path \<Rightarrow> nat res" where
  "st_size fs p =
     (if p \<in> set (noaccess fs) then Inl OSError
      else (case lookup fs p of Some (File n) \<Rightarrow> Inr n | Some Dir \<Rightarrow> Inr 0 | None \<Rightarrow> Inl OSError))"

subsection \<open>Path.rglob\<close>

text \<open>
  \<open>parent.rglob(pattern)\<close> builds the selectors for the components \<open>**\<close>, \<open>pattern\<close> and
  walks the tree. \<open>select_from fs pats cur rest\<close> tells whether the selectors \<open>pats\<close>,
  started at the directory \<open>cur\<close>, yield the path \<open>cur @ rest\<close>:
  \<^item> no selector left, or the empty component of a trailing separator: the path itself;
  \<^item> \<open>**\<close>: the directory itself and every directory beneath it (by the listing);
  \<^item> a component with \<open>*\<close>, \<open>?\<close> or \<open>[\<close>: the listed children whose name matches
    (directories only, when more components follow);
  \<^item> any other component: the child of that name, if \<open>stat\<close> finds it (a directory,
    when more components follow); a \<open>PermissionError\<close> ends that branch silently.
\<close>

definition is_wildcard_pattern :: "string \<Rightarrow> bool" where
  "is_wildcard_pattern pat =
     (CHR ''*'' \<in> set pat \<or> CHR ''?'' \<in> set pat \<or> CHR ''['' \<in> set pat)"

fun has_double_star :: "string \<Rightarrow> bool" where
  "has_double_star (a # b # cs) = ((a = CHR ''*'' \<and> b = CHR ''*'') \<or> has_double_star (b # cs))"
| "has_double_star _ = False"

fun select_from :: "fsys \<Rightarrow> string list \<Rightarrow> path \<Rightarrow> string list \<Rightarrow> bool" where
  "select_from fs [] cur rest = (rest = [])"
| "select_from fs (pat # pats) cur [] =
     (if pat = [] then True
      else if pat = ''**'' then select_from fs pats cur []
      else False)"
| "select_from fs (pat # pats) cur (c # cs) =
     (if pat = [] then False
      else if pat = ''**''
      then (select_from fs pats cur (c # cs)
            \<or> (kind_dir fs (cur @ [c]) \<and> select_from fs (pat # pats) (cur @ [c]) cs))
      else if is_wildcard_pattern pat
      then ((pats = [] \<or> kind_dir fs (cur @ [c])) \<and> fnmatchcase c pat
            \<and> select_from fs pats (cur @ [c]) cs)
      else (c = pat
            \<and> (if pats = [] then exists fs (cur @ [c]) = Inr True
                else is_dir fs (cur @ [c]) = Inr True)
            \<and> select_from fs pats (cur @ [c]) cs))"

definition rglob :: "fsys \<Rightarrow> path \<Rightarrow> string \<Rightarrow> path list res" where
  "rglob fs parent pattern =
     (let parts = pattern_parts pattern
                  @ (if pattern \<noteq> [] \<and> last pattern = CHR ''/'' then [[]] else [])
      in if is_anchored pattern then Inl NotImplementedError
         else if list_ex (\<lambda>pt. pt \<noteq> ''**'' \<and> has_double_star pt) parts then Inl ValueError
         else (case is_dir fs parent of
                 Inl e \<Rightarrow> Inl e
               | Inr False \<Rightarrow> Inr []
               | Inr True \<Rightarrow>
                   Inr (remdups
                     (filter (\<lambda>p. take (length parent) p = parent
                                  \<and> select_from fs (''**'' # parts) parent (drop (length parent) p))
                       (map fst (entries fs))))))"

subsection \<open>Changing the file system\<close>

text \<open>
  The operations of \<open>os\<close> and \<open>shutil\<close> that the program uses. Each returns the new file
  system together with its outcome. What is approximate here: creating a directory or a
  file fails only when something of the other kind is in the way; a copy or a recursive
  removal that fails stops at the first failure (the library goes on and reports at the
  end), so the part already done may be smaller than on a real disk; copying a directory
  into itself is reported as a failure at once.
\<close>

definition add_entry :: "fsys \<Rightarrow> path \<Rightarrow> node \<Rightarrow> fsys" where
  "add_entry fs p n = fs\<lparr>entries := entries fs @ [(p, n)]\<rparr>"

definition write_file :: "fsys \<Rightarrow> path \<Rightarrow> nat \<Rightarrow> fsys" where
  "write_file fs p n =
     (if lookup fs p = None then add_entry fs p (File n)
      else fs\<lparr>entries := map (\<lambda>(q, x). if q = p then (q, File n) else (q, x)) (entries fs)\<rparr>)"

text \<open>\<open>path.mkdir(parents=True, exist_ok=True)\<close>, from the top.\<close>

fun mkdirs :: "fsys \<Rightarrow> path \<Rightarrow> string list \<Rightarrow> fsys \<times> unit res" where
  "mkdirs fs cur [] = (fs, Inr ())"
| "mkdirs fs cur (c # cs) =
     (case lookup fs (cur @ [c]) of
        Some (File n) \<Rightarrow> (fs, Inl OSError)
      | Some Dir \<Rightarrow> mkdirs fs (cur @ [c]) cs
      | None \<Rightarrow> mkdirs (add_entry fs (cur @ [c]) Dir) (cur @ [c]) cs)"

definition mkdir_parents :: "fsys \<Rightarrow> path \<Rightarrow> fsys \<times> unit res" where
  "mkdir_parents fs p = mkdirs fs [] p"

text \<open>
  \<open>shutil.copy2(src, dst)\<close>: into \<open>dst\<close> under the name of \<open>src\<close> when \<open>dst\<close> is a
  directory; copying a file onto itself raises \<open>SameFileError\<close>.
\<close>

definition copy2 :: "fsys \<Rightarrow> path \<Rightarrow> path \<Rightarrow> fsys \<times> unit res" where
  "copy2 fs src dst =
     (let dst' = (if kind_dir fs dst then dst @ drop (length src - 1) src else dst) in
      if dst' = src \<or> src \<in> set (noaccess fs) then (fs, Inl OSError)
      else (case lookup fs src of
              Some (File n) \<Rightarrow>
                if kind_dir fs dst' \<or> \<not> (butlast dst' = [] \<or> kind_dir fs (butlast dst'))
                then (fs, Inl OSError)
                else (write_file fs dst' n, Inr ())
            | _ \<Rightarrow> (fs, Inl OSError)))"

text \<open>\<open>shutil.copytree(src, dst, dirs_exist_ok=True)\<close>, entry by entry in walk order.\<close>

fun copy_entries :: "fsys \<Rightarrow> path \<Rightarrow> path \<Rightarrow> (path \<times> node) list \<Rightarrow> fsys \<times> unit res" where
  "copy_entries fs src dst [] = (fs, Inr ())"
| "copy_entries fs src dst ((q, n) # es) =
     (case (case n of
              Dir \<Rightarrow> mkdir_parents fs (dst @ drop (length src) q)
            | File k \<Rightarrow> copy2 fs q (dst @ drop (length src) q)) of
        (fs', Inl e) \<Rightarrow> (fs', Inl e)
      | (fs', Inr u) \<Rightarrow> copy_entries fs' src dst es)"

definition copytree :: "fsys \<Rightarrow> path \<Rightarrow> path \<Rightarrow> fsys \<times> unit res" where
  "copytree fs src dst =
     (if take (length src) dst = src then (fs, Inl OSError)
      else (case mkdir_parents fs dst of
              (fs', Inl e) \<Rightarrow> (fs', Inl e)
            | (fs', Inr u) \<Rightarrow>
                copy_entries fs' src dst
                  (filter (\<lambda>(q, n). take (length src) q = src \<and> q \<noteq> src) (entries fs))))"

text \<open>\<open>path.unlink()\<close>.\<close>

definition unlink :: "fsys \<Rightarrow> path \<Rightarrow> fsys \<times> unit res" where
  "unlink fs p =
     (case lookup fs p of
        Some (File n) \<Rightarrow>
          if p \<in> set (locked fs) then (fs, Inl OSError)
          else (fs\<lparr>entries := filter (\<lambda>(q, x). q \<noteq> p) (entries fs)\<rparr>, Inr ())
      | _ \<Rightarrow> (fs, Inl OSError))"

text \<open>
  \<open>shutil.rmtree(path)\<close>: the whole subtree goes, unless something in it is locked; then
  the files listed before the first locked path are gone when the error is raised.
\<close>

fun rm_until_locked :: "path list \<Rightarrow> path \<Rightarrow> (path \<times> node) list \<Rightarrow> (path \<times> node) list" where
  "rm_until_locked lk p [] = []"
| "rm_until_locked lk p ((q, n) # es) =
     (if take (length p) q = p
      then (if q \<in> set lk then (q, n) # es
            else (case n of
                    File k \<Rightarrow> rm_until_locked lk p es
                  | Dir \<Rightarrow> (q, n) # rm_until_locked lk p es))
      else (q, n) # rm_until_locked lk p es)"

definition rmtree :: "fsys \<Rightarrow> path \<Rightarrow> fsys \<times> unit res" where
  "rmtree fs p =
     (if lookup fs p \<noteq> Some Dir then (fs, Inl OSError)
      else if list_ex (\<lambda>(q, n). take (length p) q = p \<and> q \<in> set (locked fs)) (entries fs)
      then (fs\<lparr>entries := rm_until_locked (locked fs) p (entries fs)\<rparr>, Inl OSError)
      else (fs\<lparr>entries := filter (\<lambda>(q, n). take (length p) q \<noteq> p) (entries fs)\<rparr>, Inr ()))"

subsection \<open>The clock and the terminal\<close>

text \<open>
  \<open>datetime.now()\<close> reads a clock; the \<open>n\<close>-th reading of a run is \<open>clock s n\<close>.
  \<open>strftime("%Y%m%d_%H%M%S")\<close> prints it with four digits for the year and two for
  every other field. \<open>input()\<close> takes the next line of \<open>stdin\<close> and raises \<open>EOFError\<close>
  when there is none. Terminal lines are ASCII text.
\<close>

record datetime =
  year :: nat
  month :: nat
  day :: nat
  hour :: nat
  minute :: nat
  second :: nat

definition digit :: "nat \<Rightarrow> char" where
  "digit n = ''0123456789'' ! (n mod 10)"

definition dec2 :: "nat \<Rightarrow> string" where
  "dec2 n = [digit (n div 10), digit n]"

definition strftime :: "datetime \<Rightarrow> string" where
  "strftime t =
     dec2 (year t div 100) @ dec2 (year t) @ dec2 (month t) @ dec2 (day t) @ ''_''
     @ dec2 (hour t) @ dec2 (minute t) @ dec2 (second t)"

definition lower_char :: "char \<Rightarrow> char" where
  "lower_char c =
     (case find_char c ''ABCDEFGHIJKLMNOPQRSTUVWXYZ'' of
        Some i \<Rightarrow> ''abcdefghijklmnopqrstuvwxyz'' ! i
      | None \<Rightarrow> c)"

definition lower :: "string \<Rightarrow> string" where
  "lower s = map lower_char s"

definition is_space :: "char \<Rightarrow> bool" where
  "is_space c =
     (c \<in> set [CHR 0x09, CHR 0x0A, CHR 0x0B, CHR 0x0C, CHR 0x0D,
                CHR 0x1C, CHR 0x1D, CHR 0x1E, CHR 0x1F, CHR 0x20])"

definition strip :: "string \<Rightarrow> string" where
  "strip s = rev (dropWhile is_space (rev (dropWhile is_space s)))"

subsection \<open>The cleaner\<close>

text \<open>
  \<open>config\<close> is the configuration dictionary (the keys the engine reads), \<open>stats\<close> the
  dictionary \<open>self.stats\<close>. A \<open>cleaner\<close> is the object \<open>self\<close> together with the world it
  acts on: the file system, the lines waiting on the terminal, the clock (and how often
  it has been read) and the paths for which a warning was printed.
\<close>

record config =
  protected_patterns :: "string list"
  cleanup_patterns :: "(string \<times> string list) list"
  backup_dir :: string

record stats =
  files_deleted :: nat
  dirs_deleted :: nat
  space_freed :: nat

record cleaner =
  project_root :: path
  config :: config
  stats :: stats
  filesystem :: fsys
  stdin :: "string list"
  clock :: "nat \<Rightarrow> datetime"
  ticks :: nat
  warnings :: "path list"

text \<open>\<open>is_protected\<close> (lines 95 to 103).\<close>

fun match_any :: "path \<Rightarrow> string list \<Rightarrow> bool res" where
  "match_any relative_path [] = Inr False"
| "match_any relative_path (pattern # patterns) =
     (case path_match relative_path pattern of
        Inl e \<Rightarrow> Inl e
      | Inr True \<Rightarrow> Inr True
      | Inr False \<Rightarrow> match_any relative_path patterns)"

definition is_protected :: "cleaner \<Rightarrow> path \<Rightarrow> bool res" where
  "is_protected s path =
     (case relative_to path (project_root s) of
        Inl e \<Rightarrow> Inl e
      | Inr relative_path \<Rightarrow> match_any relative_path (protected_patterns (config s)))"

text \<open>
  \<open>find_files\<close> (lines 77 to 93). \<open>keep_paths\<close> is the inner loop over what \<open>rglob\<close>
  yields: \<open>want_dir\<close> tells the directory branch from the file branch; \<open>and\<close> evaluates
  \<open>is_protected\<close> only for a path of the wanted kind.
\<close>

fun keep_paths :: "cleaner \<Rightarrow> bool \<Rightarrow> path list \<Rightarrow> path list res" where
  "keep_paths s want_dir [] = Inr []"
| "keep_paths s want_dir (path # paths) =
     (case (if want_dir then is_dir (filesystem s) path else is_file (filesystem s) path) of
        Inl e \<Rightarrow> Inl e
      | Inr False \<Rightarrow> keep_paths s want_dir paths
      | Inr True \<Rightarrow>
          (case is_protected s path of
             Inl e \<Rightarrow> Inl e
           | Inr True \<Rightarrow> keep_paths s want_dir paths
           | Inr False \<Rightarrow>
               (case keep_paths s want_dir paths of
                  Inl e \<Rightarrow> Inl e
                | Inr found \<Rightarrow> Inr (path # found))))"

definition rstrip_sep :: "string \<Rightarrow> string" where
  "rstrip_sep s = rev (dropWhile (\<lambda>c. c = CHR ''/'') (rev s))"

definition scan_pattern :: "cleaner \<Rightarrow> string \<Rightarrow> path list res" where
  "scan_pattern s pattern =
     (if pattern \<noteq> [] \<and> last pattern = CHR ''/''
      then (case rglob (filesystem s) (project_root s) (rstrip_sep pattern) of
              Inl e \<Rightarrow> Inl e
            | Inr paths \<Rightarrow> keep_paths s True paths)
      else (case rglob (filesystem s) (project_root s) pattern of
              Inl e \<Rightarrow> Inl e
            | Inr paths \<Rightarrow> keep_paths s False paths))"

fun find_loop :: "cleaner \<Rightarrow> string list \<Rightarrow> path list \<Rightarrow> path list res" where
  "find_loop s [] found_files = Inr found_files"
| "find_loop s (pattern # patterns) found_files =
     (case scan_pattern s pattern of
        Inl e \<Rightarrow> Inl e
      | Inr paths \<Rightarrow> find_loop s patterns (found_files @ paths))"

definition find_files :: "cleaner \<Rightarrow> string list \<Rightarrow> path list res" where
  "find_files s patterns =
     (case find_loop s patterns [] of
        Inl e \<Rightarrow> Inl e
      | Inr found_files \<Rightarrow> Inr (sort (remdups found_files)))"

text \<open>
  \<open>get_file_size\<close> (lines 105 to 118). \<open>size_loop\<close> is the loop over \<open>path.rglob('*')\<close>
  inside \<open>try\<close>: an \<open>OSError\<close> leaves the loop and the total reached so far is returned.
\<close>

fun size_loop :: "fsys \<Rightarrow> path list \<Rightarrow> nat \<Rightarrow> nat res" where
  "size_loop fs [] total_size = Inr total_size"
| "size_loop fs (item # items) total_size =
     (case is_file fs item of
        Inl e \<Rightarrow> (if e = OSError then Inr total_size else Inl e)
      | Inr False \<Rightarrow> size_loop fs items total_size
      | Inr True \<Rightarrow>
          (case st_size fs item of
             Inl e \<Rightarrow> (if e = OSError then Inr total_size else Inl e)
           | Inr n \<Rightarrow> size_loop fs items (total_size + n)))"

definition get_file_size :: "fsys \<Rightarrow> path \<Rightarrow> nat res" where
  "get_file_size fs path =
     (case is_file fs path of
        Inl e \<Rightarrow> Inl e
      | Inr True \<Rightarrow> st_size fs path
      | Inr False \<Rightarrow>
          (case is_dir fs path of
             Inl e \<Rightarrow> Inl e
           | Inr True \<Rightarrow>
               (case rglob fs path ''*'' of
                  Inl e \<Rightarrow> (if e = OSError then Inr 0 else Inl e)
                | Inr items \<Rightarrow> size_loop fs items 0)
           | Inr False \<Rightarrow> Inr 0))"

text \<open>
  \<open>backup_file\<close> (lines 128 to 138); \<open>bdir\<close> is the argument \<open>backup_dir\<close>.
\<close>

definition backup_file :: "cleaner \<Rightarrow> path \<Rightarrow> path \<Rightarrow> fsys \<times> unit res" where
  "backup_file s file_path bdir =
     (case mkdir_parents (filesystem s) bdir of
        (f1, Inl e) \<Rightarrow> (f1, Inl e)
      | (f1, Inr u) \<Rightarrow>
          (case relative_to file_path (project_root s) of
             Inl e \<Rightarrow> (f1, Inl e)
           | Inr relative_path \<Rightarrow>
               (case mkdir_parents f1 (butlast (bdir @ relative_path)) of
                  (f2, Inl e) \<Rightarrow> (f2, Inl e)
                | (f2, Inr u) \<Rightarrow>
                    (case is_file f2 file_path of
                       Inl e \<Rightarrow> (f2, Inl e)
                     | Inr True \<Rightarrow> copy2 f2 file_path (bdir @ relative_path)
                     | Inr False \<Rightarrow>
                         (case is_dir f2 file_path of
                            Inl e \<Rightarrow> (f2, Inl e)
                          | Inr True \<Rightarrow> copytree f2 file_path (bdir @ relative_path)
                          | Inr False \<Rightarrow> (f2, Inr ()))))))"

text \<open>
  \<open>delete_path\<close> (lines 140 to 156). \<open>backup_root\<close> is the directory of lines 143 and
  144, named by the clock reading taken in this call; \<open>remove_path\<close> is the rest of the
  method, from the measurement of line 147 on (\<open>sz\<close> is the variable \<open>size\<close>).
\<close>

definition backup_root :: "cleaner \<Rightarrow> path" where
  "backup_root s =
     path_join (path_join (project_root s) (backup_dir (config s))) (strftime (clock s (ticks s)))"

definition remove_path :: "cleaner \<Rightarrow> path \<Rightarrow> cleaner \<times> unit res" where
  "remove_path s path =
     (case get_file_size (filesystem s) path of
        Inl e \<Rightarrow> (s, Inl e)
      | Inr sz \<Rightarrow>
          (case is_file (filesystem s) path of
             Inl e \<Rightarrow> (s, Inl e)
           | Inr True \<Rightarrow>
               (case unlink (filesystem s) path of
                  (f, Inl e) \<Rightarrow> (s\<lparr>filesystem := f\<rparr>, Inl e)
                | (f, Inr u) \<Rightarrow>
                    (s\<lparr>filesystem := f,
                       stats := (stats s)\<lparr>files_deleted := files_deleted (stats s) + 1,
                                           space_freed := space_freed (stats s) + sz\<rparr>\<rparr>,
                     Inr ()))
           | Inr False \<Rightarrow>
               (case is_dir (filesystem s) path of
                  Inl e \<Rightarrow> (s, Inl e)
                | Inr True \<Rightarrow>
                    (case rmtree (filesystem s) path of
                       (f, Inl e) \<Rightarrow> (s\<lparr>filesystem := f\<rparr>, Inl e)
                     | (f, Inr u) \<Rightarrow>
                         (s\<lparr>filesystem := f,
                            stats := (stats s)\<lparr>dirs_deleted := dirs_deleted (stats s) + 1,
                                                space_freed := space_freed (stats s) + sz\<rparr>\<rparr>,
                          Inr ()))
                | Inr False \<Rightarrow>
                    (s\<lparr>stats := (stats s)\<lparr>space_freed := space_freed (stats s) + sz\<rparr>\<rparr>,
                     Inr ()))))"

definition delete_path :: "cleaner \<Rightarrow> path \<Rightarrow> bool \<Rightarrow> cleaner \<times> unit res" where
  "delete_path s path backup =
     (if backup
      then (case backup_file (s\<lparr>ticks := ticks s + 1\<rparr>) path (backup_root s) of
              (f, Inl e) \<Rightarrow> (s\<lparr>ticks := ticks s + 1, filesystem := f\<rparr>, Inl e)
            | (f, Inr u) \<Rightarrow> remove_path (s\<lparr>ticks := ticks s + 1, filesystem := f\<rparr>) path)
      else remove_path s path)"

text \<open>
  \<open>clean_category\<close> (lines 158 to 198). Printing is not part of the model, the calls
  made in order to print are: \<open>sum_sizes\<close> is the sum of line 163, \<open>show_files\<close> the loop
  of lines 171 to 174 over the first ten entries, \<open>delete_files\<close> the loop of lines 191
  to 195, which catches \<open>OSError\<close> (\<open>PermissionError\<close> is one) and records the warning.
\<close>

fun sum_sizes :: "fsys \<Rightarrow> path list \<Rightarrow> nat res" where
  "sum_sizes f [] = Inr 0"
| "sum_sizes f (p # ps) =
     (case get_file_size f p of
        Inl e \<Rightarrow> Inl e
      | Inr n \<Rightarrow> (case sum_sizes f ps of Inl e \<Rightarrow> Inl e | Inr m \<Rightarrow> Inr (n + m)))"

fun show_files :: "cleaner \<Rightarrow> path list \<Rightarrow> unit res" where
  "show_files s [] = Inr ()"
| "show_files s (file_path # rest) =
     (case relative_to file_path (project_root s) of
        Inl e \<Rightarrow> Inl e
      | Inr rel_path \<Rightarrow>
          (case get_file_size (filesystem s) file_path of
             Inl e \<Rightarrow> Inl e
           | Inr sz \<Rightarrow> show_files s rest))"

fun delete_files :: "cleaner \<Rightarrow> path list \<Rightarrow> bool \<Rightarrow> cleaner \<times> unit res" where
  "delete_files s [] backup = (s, Inr ())"
| "delete_files s (file_path # rest) backup =
     (case delete_path s file_path backup of
        (s', Inr u) \<Rightarrow> delete_files s' rest backup
      | (s', Inl e) \<Rightarrow>
          if e = OSError
          then delete_files (s'\<lparr>warnings := warnings s' @ [file_path]\<rparr>) rest backup
          else (s', Inl e))"

definition delete_and_report ::
  "cleaner \<Rightarrow> path list \<Rightarrow> nat \<Rightarrow> bool \<Rightarrow> cleaner \<times> (path list \<times> nat) res" where
  "delete_and_report s files_to_clean total_size backup =
     (case delete_files s files_to_clean backup of
        (s', Inl e) \<Rightarrow> (s', Inl e)
      | (s', Inr u) \<Rightarrow> (s', Inr (files_to_clean, total_size)))"

definition clean_category ::
  "cleaner \<Rightarrow> string \<Rightarrow> string list \<Rightarrow> bool \<Rightarrow> bool \<Rightarrow> bool
     \<Rightarrow> cleaner \<times> (path list \<times> nat) res" where
  "clean_category s category patterns dry_run backup interactive =
     (case find_files s patterns of
        Inl e \<Rightarrow> (s, Inl e)
      | Inr files_to_clean \<Rightarrow>
          (case sum_sizes (filesystem s) files_to_clean of
             Inl e \<Rightarrow> (s, Inl e)
           | Inr total_size \<Rightarrow>
               if files_to_clean = [] then (s, Inr (files_to_clean, total_size))
               else (case show_files s (take 10 files_to_clean) of
                  Inl e \<Rightarrow> (s, Inl e)
                | Inr u \<Rightarrow>
                    if dry_run then (s, Inr (files_to_clean, total_size))
                    else if interactive
                    then (case stdin s of
                            [] \<Rightarrow> (s, Inl EOFError)
                          | line # lines \<Rightarrow>
                              if strip (lower line) = ''s''
                              then (s\<lparr>stdin := lines\<rparr>, Inr (files_to_clean, 0))
                              else if strip (lower line) \<noteq> ''y''
                              then (s\<lparr>stdin := lines\<rparr>, Inr (files_to_clean, 0))
                              else delete_and_report (s\<lparr>stdin := lines\<rparr>)
                                     files_to_clean total_size backup)
                    else delete_and_report s files_to_clean total_size backup)))"

text \<open>
  \<open>run_cleanup\<close> (lines 200 to 231); \<open>cleanup_patterns\<close> is a dictionary, here the list
  of its items. The result is the pair of totals of the summary. \<open>main\<close> is the part of
  \<open>main\<close> from line 270 on, for a command line without \<open>--save-config\<close> and \<open>--list\<close>.
\<close>

fun run_loop ::
  "cleaner \<Rightarrow> string list \<Rightarrow> bool \<Rightarrow> bool \<Rightarrow> bool \<Rightarrow> nat \<Rightarrow> nat
     \<Rightarrow> cleaner \<times> (nat \<times> nat) res" where
  "run_loop s [] dry_run backup interactive total_files_found total_size_found =
     (s, Inr (total_files_found, total_size_found))"
| "run_loop s (category # categories) dry_run backup interactive
       total_files_found total_size_found =
     (case map_of (cleanup_patterns (config s)) category of
        None \<Rightarrow>
          run_loop s categories dry_run backup interactive total_files_found total_size_found
      | Some patterns \<Rightarrow>
          (case clean_category s category patterns dry_run backup interactive of
             (s', Inl e) \<Rightarrow> (s', Inl e)
           | (s', Inr (files, sz)) \<Rightarrow>
               run_loop s' categories dry_run backup interactive
                 (total_files_found + length files) (total_size_found + sz)))"

definition run_cleanup ::
  "cleaner \<Rightarrow> string list \<Rightarrow> bool \<Rightarrow> bool \<Rightarrow> bool \<Rightarrow> cleaner \<times> (nat \<times> nat) res" where
  "run_cleanup s categories dry_run backup interactive =
     run_loop s categories dry_run backup interactive 0 0"

definition main ::
  "cleaner \<Rightarrow> string list \<Rightarrow> bool \<Rightarrow> bool \<Rightarrow> bool \<Rightarrow> cleaner \<times> (nat \<times> nat) res" where
  "main s args_categories args_dry_run args_backup args_no_interactive =
     (let categories = (if args_categories = [] then map fst (cleanup_patterns (config s))
                        else args_categories)
      in if list_ex (\<lambda>c. c \<notin> set (map fst (cleanup_patterns (config s)))) categories
         then (s, Inl SystemExit)
         else run_cleanup s categories args_dry_run args_backup (\<not> args_no_interactive))"

subsection \<open>A small project tree\<close>

text \<open>
  The tree of the scenario of the specification, used to run the functions: the project
  root \<open>/p\<close> with \<open>README.md\<close>, \<open>a/x.pyc\<close> (10 bytes), \<open>a/y.log\<close> (20 bytes) and
  \<open>docs/readme.md\<close>; \<open>*.md\<close> is protected.
\<close>

definition ex_fs :: fsys where
  "ex_fs = \<lparr>entries = [([''p''], Dir), ([''p'', ''README.md''], File 3), ([''p'', ''a''], Dir),
      ([''p'', ''a'', ''x.pyc''], File 10), ([''p'', ''a'', ''y.log''], File 20),
      ([''p'', ''docs''], Dir), ([''p'', ''docs'', ''readme.md''], File 5)],
    noaccess = [], locked = []\<rparr>"

definition ex_config :: config where
  "ex_config = \<lparr>protected_patterns = [''*.md''],
     cleanup_patterns = [(''python_compiled'', [''*.pyc'']), (''logs'', [''*.log''])],
     backup_dir = ''cleanup_backups''\<rparr>"

definition ex_clock :: "nat \<Rightarrow> datetime" where
  "ex_clock n = \<lparr>year = 2024, month = 1, day = 7, hour = 13, minute = 5, second = n\<rparr>"

definition ex_cleaner :: cleaner where
  "ex_cleaner = \<lparr>project_root = [''p''], config = ex_config,
     stats = \<lparr>files_deleted = 0, dirs_deleted = 0, space_freed = 0\<rparr>,
     filesystem = ex_fs, stdin = [], clock = ex_clock, ticks = 0, warnings = []\<rparr>"

subsection \<open>What the specification says, for comparison\<close>



text \<open>
  The size of the specification (section 4.3): the length of a file; for a directory the
  lengths of all the files beneath it, an unreadable one counting 0; 0 for a path that
  does not exist.
\<close>

definition spec_size_of :: "fsys \<Rightarrow> path \<Rightarrow> nat" where
  "spec_size_of fs p =
     (case lookup fs p of
        None \<Rightarrow> 0
      | Some (File n) \<Rightarrow> n
      | Some Dir \<Rightarrow>
          sum_list (map (\<lambda>(q, x). case x of
                                     File n \<Rightarrow> (if q \<in> set (noaccess fs) then 0 else n)
                                   | Dir \<Rightarrow> 0)
                     (filter (\<lambda>(q, x). take (length p) q = p \<and> q \<noteq> p) (entries fs))))"

subsection \<open>Auxiliary notions\<close>

text \<open>
  \<open>file_len\<close> is the length of a regular file (0 for anything else); \<open>subtree fs p\<close> is
  what \<open>p.rglob('*')\<close> yields for a directory \<open>p\<close>, in the order of the walk.
\<close>

definition file_len :: "fsys \<Rightarrow> path \<Rightarrow> nat" where
  "file_len fs q = (case lookup fs q of Some (File n) \<Rightarrow> n | _ \<Rightarrow> 0)"

definition subtree :: "fsys \<Rightarrow> path \<Rightarrow> path list" where
  "subtree fs p =
     remdups (filter (\<lambda>q. take (length p) q = p
                          \<and> select_from fs [''**'', ''*''] p (drop (length p) q))
               (map fst (entries fs)))"

text \<open>
  A directory \<open>d\<close> whose subdirectory \<open>sub1\<close> may be listed but not searched: \<open>stat\<close> fails
  on \<open>sub1/f\<close>. The walk of \<open>d\<close> yields \<open>sub1\<close>, \<open>sub2\<close>, \<open>sub1/f\<close>, \<open>sub2/g\<close>.
\<close>

definition ex_fs_unreadable :: fsys where
  "ex_fs_unreadable = \<lparr>entries = [([''p''], Dir), ([''p'', ''d''], Dir),
      ([''p'', ''d'', ''sub1''], Dir), ([''p'', ''d'', ''sub2''], Dir),
      ([''p'', ''d'', ''sub1'', ''f''], File 7), ([''p'', ''d'', ''sub2'', ''g''], File 5)],
    noaccess = [[''p'', ''d'', ''sub1'', ''f'']], locked = []\<rparr>"






section \<open>Properties\<close>

lemmas ex_defs = ex_fs_def ex_config_def ex_clock_def ex_cleaner_def

lemmas eval_simps = pattern_parts_def is_anchored_def path_match_def relative_to_def
  is_protected_def fnmatchcase_def lookup_def kind_dir_def is_file_def is_dir_def exists_def
  st_size_def rglob_def is_wildcard_pattern_def bracket_end_def charset_def fix_last_def

subsection \<open>Protected paths\<close>

lemma match_any_raises_not:
  "\<forall>q \<in> set before. is_anchored q \<or> pattern_parts q \<noteq> [] \<Longrightarrow>
   path_match rel pattern = Inr True \<Longrightarrow>
   match_any rel (before @ pattern # after) = Inr True"
proof (induction before)
  case Nil
  then show ?case by simp
next
  case (Cons q before)
  then have "path_match rel q = Inr True \<or> path_match rel q = Inr False"
    by (auto simp: path_match_def Let_def)
  with Cons show ?case by auto
qed

lemma keep_paths_unprotected:
  "keep_paths s d paths = Inr found \<Longrightarrow> p \<in> set found \<Longrightarrow> is_protected s p = Inr False"
proof (induction paths arbitrary: found)
  case Nil
  then show ?case by simp
next
  case (Cons a paths)
  then show ?case
    by (auto split: sum.splits bool.splits if_splits)
qed

lemma scan_pattern_unprotected:
  "scan_pattern s pattern = Inr found \<Longrightarrow> p \<in> set found \<Longrightarrow> is_protected s p = Inr False"
  by (auto simp: scan_pattern_def split: if_splits sum.splits dest: keep_paths_unprotected)

lemma find_loop_unprotected:
  "find_loop s patterns acc = Inr found \<Longrightarrow> p \<in> set found \<Longrightarrow>
   p \<in> set acc \<or> is_protected s p = Inr False"
proof (induction patterns arbitrary: acc)
  case Nil
  then show ?case by simp
next
  case (Cons a patterns)
  then show ?case
    by (fastforce split: sum.splits dest: scan_pattern_unprotected)
qed

lemma find_files_unprotected:
  "find_files s patterns = Inr found \<Longrightarrow> p \<in> set found \<Longrightarrow> is_protected s p = Inr False"
  by (auto simp: find_files_def split: sum.splits dest: find_loop_unprotected)

text \<open>
  Claim C1, as the code has it. \<open>is_protected\<close> tries the protected patterns in order and
  \<open>PurePath.match\<close> raises \<open>ValueError\<close> on a pattern without components, so the claim
  holds for the pattern lists in which no pattern before the matching one is empty: if
  the relative path of a path under the project root matches a protected pattern, and
  every pattern listed before it has a component (or is anchored), then \<open>is_protected\<close>
  returns \<open>True\<close>; and, for every list of protected patterns and every list of category
  patterns, such a path is in no result of \<open>find_files\<close>.
\<close>

theorem protected_never_found:
  assumes "relative_to path (project_root s) = Inr rel"
      and "protected_patterns (config s) = before @ pattern # after"
      and "path_match rel pattern = Inr True"
      and "\<forall>q \<in> set before. is_anchored q \<or> pattern_parts q \<noteq> []"
  shows "is_protected s path = Inr True
         \<and> (\<forall>patterns found. find_files s patterns = Inr found \<longrightarrow> path \<notin> set found)"
proof -
  have p: "is_protected s path = Inr True"
    using assms by (simp add: is_protected_def match_any_raises_not)
  then show ?thesis
    using find_files_unprotected [of s _ _ path] by auto
qed

theorem protected_never_found_witness:
  "is_protected ex_cleaner [''p'', ''docs'', ''readme.md''] = Inr True
   \<and> find_files ex_cleaner [''*.md'', ''*.pyc''] = Inr [[''p'', ''a'', ''x.pyc'']]
   \<and> [''p'', ''docs'', ''readme.md''] \<notin> set [[''p'', ''a'', ''x.pyc'']]"
proof -
  have "find_files ex_cleaner [''*.md'', ''*.pyc''] = Inr [[''p'', ''a'', ''x.pyc'']]"
    by (simp add: ex_defs eval_simps find_files_def scan_pattern_def)
  then show ?thesis
    using protected_never_found [of "[''p'', ''docs'', ''readme.md'']" ex_cleaner
        "[''docs'', ''readme.md'']" "[]" "''*.md''" "[]"]
    by (simp add: ex_defs eval_simps)
qed

text \<open>
  Claim C1 as stated fails when an empty pattern precedes the matching one: with the
  protected patterns \<open>[empty, *.md]\<close> the path \<open>README.md\<close> matches \<open>*.md\<close>, and
  \<open>is_protected\<close> raises \<open>ValueError\<close> instead of returning \<open>True\<close>.
\<close>

theorem empty_pattern_counterexample:
  "path_match [''README.md''] ''*.md'' = Inr True
   \<and> is_protected (ex_cleaner\<lparr>config := ex_config\<lparr>protected_patterns := ['''', ''*.md'']\<rparr>\<rparr>)
        [''p'', ''README.md''] = Inl ValueError"
  by (simp add: ex_defs eval_simps)




subsection \<open>Pattern matching\<close>









lemma rglob_under_parent:
  "rglob fs parent pattern = Inr found \<Longrightarrow> p \<in> set found \<Longrightarrow> take (length parent) p = parent"
  by (auto simp: rglob_def Let_def split: if_splits sum.splits bool.splits)





subsection \<open>Sizes\<close>

lemma size_loop_partial:
  "size_loop fs items t =
     Inr (t + sum_list (map (file_len fs) (takeWhile (\<lambda>q. q \<notin> set (noaccess fs)) items)))"
proof (induction items arbitrary: t)
  case Nil
  then show ?case by simp
next
  case (Cons q items)
  then show ?case
    by (auto simp: is_file_def st_size_def file_len_def split: option.splits node.splits)
qed

lemma rglob_star:
  "is_dir fs p = Inr True \<Longrightarrow> rglob fs p ''*'' = Inr (subtree fs p)"
  by (simp add: rglob_def subtree_def pattern_parts_def is_anchored_def)

text \<open>
  Claim C8, as the code has it. The \<open>try\<close> of \<open>get_file_size\<close> encloses the whole
  loop, so the first entry on which \<open>stat\<close> fails ends the accumulation: for a
  directory the result is the sum of the lengths of the files that the walk yields
  before the first unreadable entry (the sum over the whole subtree when nothing is
  unreadable); the error is swallowed. For a path that does not exist the result is 0.
\<close>

theorem get_file_size_partial_sum:
  "(is_dir fs p = Inr True \<longrightarrow>
      get_file_size fs p =
        Inr (sum_list (map (file_len fs)
               (takeWhile (\<lambda>q. q \<notin> set (noaccess fs)) (subtree fs p)))))
   \<and> (lookup fs p = None \<and> p \<notin> set (noaccess fs) \<longrightarrow> get_file_size fs p = Inr 0)"
proof -
  have "get_file_size fs p =
        Inr (sum_list (map (file_len fs)
               (takeWhile (\<lambda>q. q \<notin> set (noaccess fs)) (subtree fs p))))"
    if d: "is_dir fs p = Inr True"
  proof -
    from d have "is_file fs p = Inr False"
      by (auto simp: is_dir_def is_file_def split: if_splits)
    with d show ?thesis
      by (simp add: get_file_size_def rglob_star size_loop_partial)
  qed
  moreover have "get_file_size fs p = Inr 0" if "lookup fs p = None \<and> p \<notin> set (noaccess fs)"
    using that by (simp add: get_file_size_def is_file_def is_dir_def)
  ultimately show ?thesis by blast
qed

theorem get_file_size_partial_sum_witness:
  "is_dir ex_fs [''p'', ''a''] = Inr True
   \<and> subtree ex_fs [''p'', ''a''] = [[''p'', ''a'', ''x.pyc''], [''p'', ''a'', ''y.log'']]
   \<and> get_file_size ex_fs [''p'', ''a''] = Inr 30
   \<and> lookup ex_fs [''p'', ''gone''] = None
   \<and> get_file_size ex_fs [''p'', ''gone''] = Inr 0"
proof -
  have s: "subtree ex_fs [''p'', ''a''] = [[''p'', ''a'', ''x.pyc''], [''p'', ''a'', ''y.log'']]"
    by (simp add: subtree_def ex_defs eval_simps)
  have d: "is_dir ex_fs [''p'', ''a''] = Inr True"
    by (simp add: ex_defs eval_simps)
  have n: "lookup ex_fs [''p'', ''gone''] = None \<and> [''p'', ''gone''] \<notin> set (noaccess ex_fs)"
    by (simp add: ex_defs eval_simps)
  have "get_file_size ex_fs [''p'', ''a''] = Inr 30"
    using get_file_size_partial_sum [of ex_fs "[''p'', ''a'']"] d
    by (simp add: s) (simp add: file_len_def ex_defs eval_simps)
  moreover have "get_file_size ex_fs [''p'', ''gone''] = Inr 0"
    using get_file_size_partial_sum [of ex_fs "[''p'', ''gone'']"] n by simp
  ultimately show ?thesis using s d n by simp
qed

text \<open>
  Claim C8 as stated fails: in \<open>ex_fs_unreadable\<close> the unreadable \<open>sub1/f\<close> ends the
  loop, the readable \<open>sub2/g\<close> (5 bytes) after it is not counted, and the size of \<open>d\<close>
  is 0, not 5.
\<close>

theorem unreadable_entry_counterexample:
  "get_file_size ex_fs_unreadable [''p'', ''d''] = Inr 0
   \<and> spec_size_of ex_fs_unreadable [''p'', ''d''] = 5"
  by (simp add: ex_fs_unreadable_def get_file_size_def spec_size_of_def eval_simps)

subsection \<open>The scanner and the dry run\<close>

lemma keep_paths_subset:
  "keep_paths s d paths = Inr found \<Longrightarrow> p \<in> set found \<Longrightarrow> p \<in> set paths"
  by (induction paths arbitrary: found) (auto split: sum.splits bool.splits if_splits)

lemma keep_paths_present:
  "keep_paths s d paths = Inr found \<Longrightarrow> p \<in> set found \<Longrightarrow> lookup (filesystem s) p \<noteq> None"
  by (induction paths arbitrary: found)
     (auto simp: is_file_def is_dir_def split: sum.splits bool.splits if_splits option.splits)

lemma scan_pattern_sound:
  "scan_pattern s pattern = Inr found \<Longrightarrow> p \<in> set found \<Longrightarrow>
   take (length (project_root s)) p = project_root s \<and> lookup (filesystem s) p \<noteq> None"
  by (auto simp: scan_pattern_def split: if_splits sum.splits
      dest: keep_paths_subset keep_paths_present rglob_under_parent)

lemma find_loop_sound:
  "find_loop s patterns acc = Inr found \<Longrightarrow> p \<in> set found \<Longrightarrow>
   p \<in> set acc
   \<or> (take (length (project_root s)) p = project_root s \<and> lookup (filesystem s) p \<noteq> None)"
proof (induction patterns arbitrary: acc)
  case Nil
  then show ?case by simp
next
  case (Cons a patterns)
  then show ?case
    by (fastforce split: sum.splits dest: scan_pattern_sound)
qed

lemma find_files_sound:
  "find_files s patterns = Inr found \<Longrightarrow> p \<in> set found \<Longrightarrow>
   take (length (project_root s)) p = project_root s \<and> lookup (filesystem s) p \<noteq> None"
  by (auto simp: find_files_def split: sum.splits dest: find_loop_sound)





lemmas run_simps = find_files_def scan_pattern_def get_file_size_def delete_path_def
  remove_path_def unlink_def rmtree_def clean_category_def delete_and_report_def
  run_cleanup_def main_def lower_def lower_char_def strip_def is_space_def

text \<open>
  Claim C2. In dry-run mode \<open>clean_category\<close> returns the cleaner it was given: the
  file system, the statistics and everything else are unchanged (so statistics that
  were all zero stay all zero), whatever the category, the patterns and the other flags
  are and whether the call returns or raises; and every entry it reports is on disk.
\<close>

theorem dry_run_no_effect:
  "fst (clean_category s category patterns True backup interactive) = s
   \<and> (\<forall>files tot. snd (clean_category s category patterns True backup interactive)
                       = Inr (files, tot)
        \<longrightarrow> (\<forall>p \<in> set files. lookup (filesystem s) p \<noteq> None))"
  by (auto simp: clean_category_def split: sum.splits dest: find_files_sound)

theorem dry_run_no_effect_witness:
  "fst (clean_category ex_cleaner ''python_compiled'' [''*.pyc''] True True True) = ex_cleaner
   \<and> snd (clean_category ex_cleaner ''python_compiled'' [''*.pyc''] True True True)
       = Inr ([[''p'', ''a'', ''x.pyc'']], 10)
   \<and> lookup (filesystem ex_cleaner) [''p'', ''a'', ''x.pyc''] \<noteq> None
   \<and> stats ex_cleaner = \<lparr>files_deleted = 0, dirs_deleted = 0, space_freed = 0\<rparr>"
proof -
  have r: "snd (clean_category ex_cleaner ''python_compiled'' [''*.pyc''] True True True)
       = Inr ([[''p'', ''a'', ''x.pyc'']], 10)"
    by (simp add: ex_defs eval_simps run_simps)
  with dry_run_no_effect [of ex_cleaner "''python_compiled''" "[''*.pyc'']" True True]
  have "fst (clean_category ex_cleaner ''python_compiled'' [''*.pyc''] True True True) = ex_cleaner
        \<and> lookup (filesystem ex_cleaner) [''p'', ''a'', ''x.pyc''] \<noteq> None"
    by simp
  with r show ?thesis by (simp add: ex_cleaner_def)
qed


subsection \<open>The deletion loop\<close>














lemma remove_path_frame:
  "remove_path s p = (s', r) \<Longrightarrow>
   project_root s' = project_root s \<and> config s' = config s \<and> stdin s' = stdin s
   \<and> clock s' = clock s \<and> ticks s' = ticks s \<and> warnings s' = warnings s"
  by (auto simp: remove_path_def split: prod.splits sum.splits bool.splits)

lemma delete_path_frame:
  "delete_path s p backup = (s', r) \<Longrightarrow>
   project_root s' = project_root s \<and> config s' = config s \<and> stdin s' = stdin s
   \<and> clock s' = clock s \<and> warnings s' = warnings s
   \<and> ticks s' = (if backup then ticks s + 1 else ticks s)"
  by (auto simp: delete_path_def split: if_splits prod.splits sum.splits
      dest!: remove_path_frame)



lemma delete_files_frame:
  "delete_files s ps backup = (s', r) \<Longrightarrow>
   project_root s' = project_root s \<and> config s' = config s \<and> stdin s' = stdin s
   \<and> clock s' = clock s"
proof (induction ps arbitrary: s)
  case Nil
  then show ?case by simp
next
  case (Cons p ps)
  obtain s1 r1 where d: "delete_path s p backup = (s1, r1)" by (cases "delete_path s p backup")
  note f = delete_path_frame [OF d]
  show ?case
  proof (cases r1)
    case (Inl e)
    show ?thesis
    proof (cases "e = OSError")
      case True
      with Cons.prems d Inl
      have "delete_files (s1\<lparr>warnings := warnings s1 @ [p]\<rparr>) ps backup = (s', r)" by simp
      from Cons.IH [OF this] f show ?thesis by simp
    next
      case False
      with Cons.prems d Inl f show ?thesis by simp
    qed
  next
    case (Inr u)
    with Cons.prems d have "delete_files s1 ps backup = (s', r)" by simp
    from Cons.IH [OF this] f show ?thesis by simp
  qed
qed













subsection \<open>The size a category returns\<close>





subsection \<open>Unknown categories\<close>

lemma delete_and_report_config:
  "config (fst (delete_and_report t files tot backup)) = config t"
proof -
  obtain t' r where x: "delete_files t files backup = (t', r)"
    by (cases "delete_files t files backup")
  from delete_files_frame [OF x] x show ?thesis
    by (cases r) (simp_all add: delete_and_report_def)
qed

lemma clean_category_config:
  "config (fst (clean_category s category patterns dry_run backup interactive)) = config s"
  unfolding clean_category_def
  by (simp add: delete_and_report_config split: sum.split list.split)

lemma run_loop_skip:
  "map_of (cleanup_patterns (config s)) c = None \<Longrightarrow>
   run_loop s (xs @ c # ys) dry_run backup interactive tf ts
     = run_loop s (xs @ ys) dry_run backup interactive tf ts"
proof (induction xs arbitrary: s tf ts)
  case Nil
  then show ?case by simp
next
  case (Cons x xs)
  show ?case
  proof (cases "map_of (cleanup_patterns (config s)) x")
    case None
    with Cons show ?thesis by simp
  next
    case (Some patterns)
    obtain s' r where cc: "clean_category s x patterns dry_run backup interactive = (s', r)"
      by (cases "clean_category s x patterns dry_run backup interactive")
    then have "config s' = config s"
      using clean_category_config [of s x patterns dry_run backup interactive] by simp
    with Cons.prems have "map_of (cleanup_patterns (config s')) c = None" by simp
    from Cons.IH [OF this] Some cc show ?thesis
      by (auto split: sum.splits)
  qed
qed

text \<open>
  Claim C10. A category name that is not a key of \<open>cleanup_patterns\<close> changes nothing in
  \<open>run_cleanup\<close>: the run with the name in the list is the run without it (the same
  final cleaner, file system and statistics included, the same totals or the same
  exception). The check of the names is in \<open>main\<close>, which exits before \<open>run_cleanup\<close>
  is called.
\<close>

theorem unknown_category_skipped:
  assumes "map_of (cleanup_patterns (config s)) c = None"
  shows "run_cleanup s (xs @ c # ys) dry_run backup interactive
           = run_cleanup s (xs @ ys) dry_run backup interactive
         \<and> main s (xs @ c # ys) dry_run backup no_interactive = (s, Inl SystemExit)"
proof -
  from assms have "c \<notin> set (map fst (cleanup_patterns (config s)))"
    by (simp add: map_of_eq_None_iff)
  then have "main s (xs @ c # ys) dry_run backup no_interactive = (s, Inl SystemExit)"
    by (auto simp: main_def Let_def list_ex_iff)
  with assms show ?thesis by (simp add: run_cleanup_def run_loop_skip)
qed

theorem unknown_category_skipped_witness:
  "map_of (cleanup_patterns (config ex_cleaner)) ''bogus'' = None
   \<and> run_cleanup ex_cleaner [''python_compiled'', ''bogus'', ''logs''] False False False
       = run_cleanup ex_cleaner [''python_compiled'', ''logs''] False False False
   \<and> snd (run_cleanup ex_cleaner [''python_compiled'', ''logs''] False False False) = Inr (2, 30)
   \<and> run_cleanup ex_cleaner [''bogus''] False False False = (ex_cleaner, Inr (0, 0))
   \<and> main ex_cleaner [''python_compiled'', ''bogus'', ''logs''] False False True
       = (ex_cleaner, Inl SystemExit)"
proof -
  have n: "map_of (cleanup_patterns (config ex_cleaner)) ''bogus'' = None"
    by (simp add: ex_defs)
  have v: "snd (run_cleanup ex_cleaner [''python_compiled'', ''logs''] False False False) = Inr (2, 30)"
    by (simp add: ex_defs eval_simps run_simps)
  from unknown_category_skipped [OF n, of "[''python_compiled'']" "[''logs'']" False False False True]
       unknown_category_skipped [OF n, of "[]" "[]" False False False True] n v
  show ?thesis by (simp add: run_cleanup_def)
qed

subsection \<open>The space freed\<close>

















end
